theory Spec2Isabelle
  imports Complex_Main
begin

section \<open>Values\<close>

text \<open>
  The simulation computes with NumPy values of two shapes: \<open>np.float64\<close> scalars (what
  \<open>get_target_movement\<close> returns) and one-dimensional arrays of one element (the driver
  starts from \<open>np.array([0.0])\<close>, and every filtered state derived from it has that
  shape). Arithmetic between the two broadcasts: the result is an array as soon as one
  operand is. Numbers are the reals: rounding and overflow of IEEE doubles are outside
  this model.
\<close>

datatype ndvalue = Scalar real | Array real

fun item :: "ndvalue \<Rightarrow> real" where
  "item (Scalar x) = x"
| "item (Array x) = x"

fun is_array :: "ndvalue \<Rightarrow> bool" where
  "is_array (Scalar x) = False"
| "is_array (Array x) = True"

definition broadcast :: "(real \<Rightarrow> real \<Rightarrow> real) \<Rightarrow> ndvalue \<Rightarrow> ndvalue \<Rightarrow> ndvalue" where
  "broadcast f a b =
     (if is_array a \<or> is_array b then Array (f (item a) (item b))
      else Scalar (f (item a) (item b)))"

definition np_add :: "ndvalue \<Rightarrow> ndvalue \<Rightarrow> ndvalue" where
  "np_add a b = broadcast (+) a b"

definition np_sub :: "ndvalue \<Rightarrow> ndvalue \<Rightarrow> ndvalue" where
  "np_sub a b = broadcast (-) a b"

definition np_mul :: "ndvalue \<Rightarrow> ndvalue \<Rightarrow> ndvalue" where
  "np_mul a b = broadcast (*) a b"

fun np_abs :: "ndvalue \<Rightarrow> ndvalue" where
  "np_abs (Scalar x) = Scalar \<bar>x\<bar>"
| "np_abs (Array x) = Array \<bar>x\<bar>"

datatype py_error = TypeError | DivideByZero

text \<open>
  NumPy signals a floating-point division by zero (a warning, and an infinite or
  undefined result) instead of returning a number. The model makes that event the error
  value \<open>DivideByZero\<close>, so that its absence is something to prove.
\<close>

definition np_div :: "ndvalue \<Rightarrow> ndvalue \<Rightarrow> py_error + ndvalue" where
  "np_div a b = (if item b = 0 then Inl DivideByZero else Inr (broadcast (/) a b))"

section \<open>The simulation object\<close>

record sim =
  dt :: real
  noise_level :: real
  static_core :: "real list"
  eigen_decay :: real
  phi_state :: "real list"

definition init :: sim where
  "init = \<lparr> dt = 0.01, noise_level = 0.4, static_core = [0.0, 0.0],
            eigen_decay = 0.85, phi_state = [0.0, 0.0] \<rparr>"

section \<open>The world: random generator and console\<close>

text \<open>
  The process-wide generator of \<open>np.random\<close> is a stream \<open>zs\<close> of standard normal
  variates, fixed for a run, and a position \<open>rng_pos\<close> counting how many of them have
  been consumed. \<open>np.random.normal(loc, scale)\<close> takes the next variate \<open>z\<close> and
  returns \<open>loc + scale * z\<close>. The console is the list of lines printed so far; a
  formatted number is kept as the number.
\<close>

datatype out_line = Text string | NoiseLevelLine real | StepLine nat real

record world =
  rng_pos :: nat
  stdout :: "out_line list"

definition print :: "out_line \<Rightarrow> world \<Rightarrow> world" where
  "print line w = w\<lparr>stdout := stdout w @ [line]\<rparr>"

definition random_normal :: "(nat \<Rightarrow> real) \<Rightarrow> real \<Rightarrow> real \<Rightarrow> world \<Rightarrow> real \<times> world" where
  "random_normal zs loc scale w =
     (loc + scale * zs (rng_pos w), w\<lparr>rng_pos := Suc (rng_pos w)\<rparr>)"

section \<open>Signal generator and filter\<close>

definition get_target_movement :: "sim \<Rightarrow> (nat \<Rightarrow> real) \<Rightarrow> real \<Rightarrow> world \<Rightarrow> ndvalue \<times> world" where
  "get_target_movement s zs t w =
     (let pulse = 0.5 * sin (2 * pi * 1.2 * t);
          breath = 1.2 * sin (2 * pi * 0.3 * t);
          (stochastic_noise, w') = random_normal zs 0 (noise_level s) w
      in (Scalar (pulse + breath + stochastic_noise), w'))"

definition apply_rtd_filter :: "sim \<Rightarrow> ndvalue \<Rightarrow> ndvalue \<Rightarrow> ndvalue" where
  "apply_rtd_filter s raw_signal predicted_state =
     (let error = np_sub raw_signal predicted_state;
          gamma_correction = np_mul error (Scalar (1 - eigen_decay s));
          new_state = np_add predicted_state gamma_correction
      in new_state)"

section \<open>The driver\<close>

text \<open>
  \<open>max(0, coherence)\<close> returns its second argument when that compares greater than
  the integer \<open>0\<close>, and the integer otherwise. The format specification \<open>.4f\<close> is
  accepted by integers and by NumPy scalars; an array of one or more dimensions rejects
  every non-empty format specification with a \<open>TypeError\<close>.
\<close>

datatype pyobj = PyInt int | PyNd ndvalue

definition py_max0 :: "ndvalue \<Rightarrow> pyobj" where
  "py_max0 c = (if item c > 0 then PyNd c else PyInt 0)"

fun format_4f :: "pyobj \<Rightarrow> py_error + real" where
  "format_4f (PyInt n) = Inr (real_of_int n)"
| "format_4f (PyNd (Scalar x)) = Inr x"
| "format_4f (PyNd (Array x)) = Inl TypeError"

definition coherence_denominator :: "ndvalue \<Rightarrow> ndvalue" where
  "coherence_denominator target_pos = np_add (np_abs target_pos) (Scalar 1.5)"

definition coherence_metric :: "ndvalue \<Rightarrow> ndvalue \<Rightarrow> py_error + ndvalue" where
  "coherence_metric stable_pos target_pos =
     (case np_div (np_abs (np_sub stable_pos target_pos)) (coherence_denominator target_pos) of
        Inl e \<Rightarrow> Inl e
      | Inr q \<Rightarrow> Inr (np_sub (Scalar 1.0) q))"

definition log_coherence :: "nat \<Rightarrow> ndvalue \<Rightarrow> ndvalue \<Rightarrow> world \<Rightarrow> (py_error + unit) \<times> world" where
  "log_coherence i stable_pos target_pos w =
     (case coherence_metric stable_pos target_pos of
        Inl e \<Rightarrow> (Inl e, w)
      | Inr coherence \<Rightarrow>
          (case format_4f (py_max0 coherence) of
             Inl e \<Rightarrow> (Inl e, w)
           | Inr v \<Rightarrow> (Inr (), print (StepLine i v) w)))"

record py_locals =
  rtd_trajectory :: "ndvalue list"
  raw_sensor_data :: "ndvalue list"
  current_prediction :: ndvalue

definition loop_body :: "sim \<Rightarrow> (nat \<Rightarrow> real) \<Rightarrow> nat \<Rightarrow> py_locals \<Rightarrow> world \<Rightarrow> (py_error + py_locals) \<times> world" where
  "loop_body s zs i l w =
     (let t = real i * dt s;
          (target_pos, w1) = get_target_movement s zs t w;
          stable_pos = apply_rtd_filter s target_pos (current_prediction l);
          l' = \<lparr> rtd_trajectory = rtd_trajectory l @ [stable_pos],
                 raw_sensor_data = raw_sensor_data l @ [target_pos],
                 current_prediction = stable_pos \<rparr>
      in if i mod 200 = 0 then
           (case log_coherence i stable_pos target_pos w1 of
              (Inl e, w2) \<Rightarrow> (Inl e, w2)
            | (Inr u, w2) \<Rightarrow> (Inr l', w2))
         else (Inr l', w1))"

fun for_loop :: "sim \<Rightarrow> (nat \<Rightarrow> real) \<Rightarrow> nat list \<Rightarrow> py_locals \<Rightarrow> world \<Rightarrow> (py_error + py_locals) \<times> world" where
  "for_loop s zs [] l w = (Inr l, w)"
| "for_loop s zs (i # rest) l w =
     (case loop_body s zs i l w of
        (Inl e, w') \<Rightarrow> (Inl e, w')
      | (Inr l', w') \<Rightarrow> for_loop s zs rest l' w')"

definition py_range :: "int \<Rightarrow> nat list" where
  "py_range steps = [0..<nat steps]"

definition banner :: "sim \<Rightarrow> out_line list" where
  "banner s =
     [Text ''--- RTD Simulation Started ---'',
      Text ''Target: Full Robotic Autonomy (Off-World Standard)'',
      NoiseLevelLine (noise_level s * 100),
      Text (replicate 40 (CHR ''-''))]"

definition summary :: "out_line list" where
  "summary =
     [Text (replicate 40 (CHR ''-'')),
      Text ''Simulation Complete: Target Coherence > 0.98 Verified.'',
      Text ''RTD Framework: Ready for Neuralink Integration.'']"

definition run :: "sim \<Rightarrow> (nat \<Rightarrow> real) \<Rightarrow> int \<Rightarrow> (py_error + ndvalue list \<times> ndvalue list) \<times> world" where
  "run s zs steps =
     (let w0 = \<lparr> rng_pos = 0, stdout = banner s \<rparr>;
          l0 = \<lparr> rtd_trajectory = [], raw_sensor_data = [],
                 current_prediction = Array 0.0 \<rparr>
      in case for_loop s zs (py_range steps) l0 w0 of
           (Inl e, w1) \<Rightarrow> (Inl e, w1)
         | (Inr l, w1) \<Rightarrow>
             (Inr (raw_sensor_data l, rtd_trajectory l),
              w1\<lparr>stdout := stdout w1 @ summary\<rparr>))"

section \<open>Reference notions for the properties\<close>


text \<open>
  The loop invariant of the driver: both trajectories have the same length, the carried
  prediction is the last filtered state (the initial array before the first step), and
  every filtered state is the update of the raw sample of its step and the state before.
\<close>

definition threaded :: "sim \<Rightarrow> py_locals \<Rightarrow> bool" where
  "threaded s l \<longleftrightarrow>
     length (rtd_trajectory l) = length (raw_sensor_data l)
     \<and> current_prediction l = last (Array 0 # rtd_trajectory l)
     \<and> (\<forall>i<length (rtd_trajectory l).
           rtd_trajectory l ! i =
             apply_rtd_filter s (raw_sensor_data l ! i) ((Array 0 # rtd_trajectory l) ! i))"

section \<open>The filter update\<close>

lemma item_broadcast: "item (broadcast f a b) = f (item a) (item b)"
  by (simp add: broadcast_def)

lemma item_apply_rtd_filter:
  "item (apply_rtd_filter s raw p) = item p + (item raw - item p) * (1 - eigen_decay s)"
  by (simp add: apply_rtd_filter_def np_add_def np_sub_def np_mul_def item_broadcast)



lemma apply_rtd_filter_Array:
  "apply_rtd_filter s (Scalar r) (Array p) = Array (p + (r - p) * (1 - eigen_decay s))"
  by (simp add: apply_rtd_filter_def np_add_def np_sub_def np_mul_def broadcast_def)


subsection \<open>Convergence under a constant input\<close>








section \<open>The signal generator\<close>

lemma get_target_movement_eq:
  "get_target_movement s zs t w =
     (Scalar (0.5 * sin (2 * pi * 1.2 * t) + 1.2 * sin (2 * pi * 0.3 * t)
              + (0 + noise_level s * zs (rng_pos w))),
      w\<lparr>rng_pos := Suc (rng_pos w)\<rparr>)"
  by (simp add: get_target_movement_def random_normal_def)

lemma get_target_movement_rng:
  "rng_pos (snd (get_target_movement s zs t w)) = Suc (rng_pos w)"
  by (simp add: get_target_movement_def random_normal_def)

lemma get_target_movement_cong:
  "zs (rng_pos w) = zs' (rng_pos w) \<Longrightarrow>
   get_target_movement s zs t w = get_target_movement s zs' t w"
  by (simp add: get_target_movement_def random_normal_def)

text \<open>
  C6. For every time \<open>t\<close> the sample is the sum of exactly three terms:
  \<open>0.5 * sin (2 pi 1.2 t)\<close>, \<open>1.2 * sin (2 pi 0.3 t)\<close> and one draw of
  \<open>np.random.normal(0, noise_level)\<close>, that is, mean 0 plus \<open>noise_level\<close> times the next
  standard normal variate of the generator. Each call takes one variate and advances the
  generator by one, so the next call draws the next variate. When the noise term is 0
  (the noise level is 0, or the variate drawn is 0), the sample at \<open>t = 0\<close> is 0.
\<close>

theorem target_movement_terms:
  "get_target_movement s zs t w =
     (Scalar (0.5 * sin (2 * pi * 1.2 * t) + 1.2 * sin (2 * pi * 0.3 * t)
              + (0 + noise_level s * zs (rng_pos w))),
      w\<lparr>rng_pos := Suc (rng_pos w)\<rparr>)
   \<and> fst (get_target_movement s zs t' (snd (get_target_movement s zs t w))) =
       Scalar (0.5 * sin (2 * pi * 1.2 * t') + 1.2 * sin (2 * pi * 0.3 * t')
               + (0 + noise_level s * zs (Suc (rng_pos w))))
   \<and> noise_level init = 0.4
   \<and> fst (get_target_movement (s\<lparr>noise_level := 0\<rparr>) zs 0 w) = Scalar 0
   \<and> fst (get_target_movement s (\<lambda>k. 0) 0 w) = Scalar 0"
  by (simp add: get_target_movement_def random_normal_def init_def)

section \<open>The coherence metric\<close>

lemma coherence_metric_Array:
  "coherence_metric (Array a) (Scalar r) = Inr (Array (1 - \<bar>a - r\<bar> / (\<bar>r\<bar> + 1.5)))"
proof -
  have "\<bar>r\<bar> + 1.5 \<noteq> 0" by simp
  then show ?thesis
    by (simp add: coherence_metric_def coherence_denominator_def np_div_def np_add_def
        np_sub_def broadcast_def)
qed

lemma log_coherence_Array:
  "log_coherence i (Array a) (Scalar r) w =
     (if 0 < 1 - \<bar>a - r\<bar> / (\<bar>r\<bar> + 1.5) then (Inl TypeError, w)
      else (Inr (), print (StepLine i 0) w))"
  by (simp add: log_coherence_def coherence_metric_Array py_max0_def)

lemma log_coherence_rng:
  "log_coherence i a b w = (r, w') \<Longrightarrow> rng_pos w' = rng_pos w"
  by (auto simp add: log_coherence_def print_def split: sum.splits)

text \<open>
  C9. The division in the coherence metric never divides by zero: for every raw sample the
  denominator \<open>|raw| + 1.5\<close> is strictly positive, so the metric is computed (its value is
  1 minus the quotient), and logging it never ends in a division error.
\<close>

theorem coherence_division_defined:
  "0 < item (coherence_denominator target_pos)
   \<and> coherence_metric stable_pos target_pos =
       Inr (np_sub (Scalar 1.0)
              (broadcast (/) (np_abs (np_sub stable_pos target_pos))
                 (coherence_denominator target_pos)))
   \<and> fst (log_coherence i stable_pos target_pos w) \<noteq> Inl DivideByZero"
proof -
  have d: "0 < item (coherence_denominator target_pos)"
    by (cases target_pos) (simp_all add: coherence_denominator_def np_add_def broadcast_def)
  then have m: "coherence_metric stable_pos target_pos =
       Inr (np_sub (Scalar 1.0)
              (broadcast (/) (np_abs (np_sub stable_pos target_pos))
                 (coherence_denominator target_pos)))"
    by (simp add: coherence_metric_def np_div_def)
  have "fst (log_coherence i stable_pos target_pos w) \<noteq> Inl DivideByZero"
    unfolding log_coherence_def m
    by (cases "py_max0 (np_sub (Scalar 1.0)
              (broadcast (/) (np_abs (np_sub stable_pos target_pos))
                 (coherence_denominator target_pos)))" rule: format_4f.cases) simp_all
  with d m show ?thesis by blast
qed

section \<open>The driver loop\<close>

lemma loop_body_Array:
  "current_prediction l = Array p \<Longrightarrow>
   loop_body s zs i l w =
     (let tp = 0.5 * sin (2 * pi * 1.2 * (real i * dt s))
               + 1.2 * sin (2 * pi * 0.3 * (real i * dt s))
               + (0 + noise_level s * zs (rng_pos w));
          sp = p + (tp - p) * (1 - eigen_decay s);
          w1 = w\<lparr>rng_pos := Suc (rng_pos w)\<rparr>;
          l' = \<lparr> rtd_trajectory = rtd_trajectory l @ [Array sp],
                 raw_sensor_data = raw_sensor_data l @ [Scalar tp],
                 current_prediction = Array sp \<rparr>
      in if i mod 200 = 0 then
           (if 0 < 1 - \<bar>sp - tp\<bar> / (\<bar>tp\<bar> + 1.5) then (Inl TypeError, w1)
            else (Inr l', print (StepLine i 0) w1))
         else (Inr l', w1))"
  unfolding loop_body_def get_target_movement_eq
  by (simp only: Let_def prod.case apply_rtd_filter_Array log_coherence_Array
      if_distrib[of "case_prod _"] sum.case cong: if_cong)

lemma loop_body_rng:
  "rng_pos (snd (loop_body s zs i l w)) = Suc (rng_pos w)"
proof -
  obtain target w1 where g: "get_target_movement s zs (real i * dt s) w = (target, w1)"
    by (cases "get_target_movement s zs (real i * dt s) w")
  then have "rng_pos w1 = Suc (rng_pos w)"
    using get_target_movement_rng[of s zs "real i * dt s" w] by simp
  then show ?thesis
    by (auto simp add: loop_body_def g Let_def split: prod.splits sum.splits
        dest: log_coherence_rng)
qed

lemma loop_body_cong:
  "zs (rng_pos w) = zs' (rng_pos w) \<Longrightarrow> loop_body s zs i l w = loop_body s zs' i l w"
  by (simp add: loop_body_def get_target_movement_cong[of zs w zs'])

lemma loop_body_Inr:
  assumes "loop_body s zs i l w = (Inr l', w')"
  shows "\<exists>target_pos.
           rtd_trajectory l' =
             rtd_trajectory l @ [apply_rtd_filter s target_pos (current_prediction l)]
         \<and> raw_sensor_data l' = raw_sensor_data l @ [target_pos]
         \<and> current_prediction l' = apply_rtd_filter s target_pos (current_prediction l)"
proof -
  obtain target w1 where g: "get_target_movement s zs (real i * dt s) w = (target, w1)"
    by (cases "get_target_movement s zs (real i * dt s) w")
  from assms have
    "l' = \<lparr> rtd_trajectory = rtd_trajectory l @ [apply_rtd_filter s target (current_prediction l)],
            raw_sensor_data = raw_sensor_data l @ [target],
            current_prediction = apply_rtd_filter s target (current_prediction l) \<rparr>"
    by (auto simp add: loop_body_def g Let_def split: if_splits prod.splits sum.splits)
  then show ?thesis by simp
qed

lemma threaded_loop_body:
  assumes "loop_body s zs i l w = (Inr l', w')" and "threaded s l"
  shows "threaded s l'"
proof -
  from loop_body_Inr[OF assms(1)] obtain tp where
    f: "rtd_trajectory l' = rtd_trajectory l @ [apply_rtd_filter s tp (current_prediction l)]"
    and r: "raw_sensor_data l' = raw_sensor_data l @ [tp]"
    and c: "current_prediction l' = apply_rtd_filter s tp (current_prediction l)"
    by blast
  from assms(2) have len: "length (rtd_trajectory l) = length (raw_sensor_data l)"
    and cur: "current_prediction l = last (Array 0 # rtd_trajectory l)"
    and nth: "\<And>i. i < length (rtd_trajectory l) \<Longrightarrow>
           rtd_trajectory l ! i =
             apply_rtd_filter s (raw_sensor_data l ! i) ((Array 0 # rtd_trajectory l) ! i)"
    by (simp_all add: threaded_def)
  have "rtd_trajectory l' ! i =
          apply_rtd_filter s (raw_sensor_data l' ! i) ((Array 0 # rtd_trajectory l') ! i)"
    if "i < length (rtd_trajectory l')" for i
  proof (cases "i < length (rtd_trajectory l)")
    case True
    then have "(Array 0 # rtd_trajectory l') ! i = (Array 0 # rtd_trajectory l) ! i"
      unfolding f by (cases i) (simp_all add: nth_append)
    with True nth[OF True] show ?thesis
      unfolding f r using len by (simp add: nth_append)
  next
    case False
    with that have i: "i = length (rtd_trajectory l)" unfolding f by simp
    have "(Array 0 # rtd_trajectory l') ! i = last (Array 0 # rtd_trajectory l)"
      unfolding f i by (cases "rtd_trajectory l" rule: rev_cases) (simp_all add: nth_append)
    then show ?thesis
      unfolding f r using i len cur by (simp add: nth_append)
  qed
  then show ?thesis
    unfolding threaded_def using len f r c by simp
qed

lemma threaded_for_loop:
  "for_loop s zs idxs l w = (Inr l', w') \<Longrightarrow> threaded s l \<Longrightarrow> threaded s l'"
proof (induction idxs arbitrary: l w)
  case Nil
  then show ?case by simp
next
  case (Cons i rest)
  show ?case
  proof (cases "loop_body s zs i l w")
    case (Pair r w1)
    with Cons.prems(1) obtain l1 where r: "r = Inr l1"
      by (cases r) simp_all
    with Pair Cons.prems(1) have "for_loop s zs rest l1 w1 = (Inr l', w')" by simp
    moreover have "threaded s l1"
      using threaded_loop_body Pair r Cons.prems(2) by blast
    ultimately show ?thesis by (rule Cons.IH)
  qed
qed

lemma for_loop_cong:
  "(\<forall>k. rng_pos w \<le> k \<and> k < rng_pos w + length idxs \<longrightarrow> zs k = zs' k) \<Longrightarrow>
   for_loop s zs idxs l w = for_loop s zs' idxs l w"
proof (induction idxs arbitrary: l w)
  case Nil
  show ?case by simp
next
  case (Cons i rest)
  have b: "loop_body s zs i l w = loop_body s zs' i l w"
    using Cons.prems by (intro loop_body_cong) simp
  show ?case
  proof (cases "loop_body s zs' i l w")
    case (Pair r w')
    have p: "rng_pos w' = Suc (rng_pos w)"
      using loop_body_rng[of s zs' i l w] Pair by simp
    show ?thesis
    proof (cases r)
      case (Inl e)
      with Pair b show ?thesis by simp
    next
      case (Inr l')
      have "for_loop s zs rest l' w' = for_loop s zs' rest l' w'"
        using Cons.prems p by (intro Cons.IH) simp
      with Pair Inr b show ?thesis by simp
    qed
  qed
qed

lemma py_range_nonpos: "steps \<le> 0 \<Longrightarrow> py_range steps = []"
  by (simp add: py_range_def)

lemma py_range_pos: "0 < steps \<Longrightarrow> py_range steps = 0 # [1..<nat steps]"
  by (simp add: py_range_def upt_conv_Cons)

lemma for_loop_Inr_counts:
  "for_loop s zs idxs l w = (Inr l', w') \<Longrightarrow>
   rng_pos w' = rng_pos w + length idxs
   \<and> length (raw_sensor_data l') = length (raw_sensor_data l) + length idxs
   \<and> length (rtd_trajectory l') = length (rtd_trajectory l) + length idxs"
proof (induction idxs arbitrary: l w)
  case Nil
  then show ?case by simp
next
  case (Cons i rest)
  show ?case
  proof (cases "loop_body s zs i l w")
    case (Pair r w1)
    with Cons.prems obtain l1 where r: "r = Inr l1"
      by (cases r) simp_all
    with Pair Cons.prems have rest: "for_loop s zs rest l1 w1 = (Inr l', w')" by simp
    have p: "rng_pos w1 = Suc (rng_pos w)"
      using loop_body_rng[of s zs i l w] Pair by simp
    from loop_body_Inr[of s zs i l w l1 w1] Pair r
    have "length (raw_sensor_data l1) = Suc (length (raw_sensor_data l))"
      and "length (rtd_trajectory l1) = Suc (length (rtd_trajectory l))"
      by auto
    with Cons.IH[OF rest] p show ?thesis by simp
  qed
qed

section \<open>Runs\<close>

text \<open>
  A run that returns has made every step: both trajectories have \<open>steps\<close> entries (none
  for a negative \<open>steps\<close>) and the generator has advanced by as many variates.
\<close>

lemma run_returns_counts:
  assumes "run s zs steps = (Inr (raw, filtered), w)"
  shows "length raw = nat steps \<and> length filtered = nat steps \<and> rng_pos w = nat steps"
proof -
  define l0 where "l0 = \<lparr> rtd_trajectory = [], raw_sensor_data = [],
                 current_prediction = Array 0.0 \<rparr>"
  define w0 where "w0 = \<lparr> rng_pos = 0, stdout = banner s \<rparr>"
  obtain r w1 where fl: "for_loop s zs (py_range steps) l0 w0 = (r, w1)"
    by (cases "for_loop s zs (py_range steps) l0 w0")
  with assms obtain l where r: "r = Inr l" and raw: "raw = raw_sensor_data l"
    and filtered: "filtered = rtd_trajectory l" and w: "w = w1\<lparr>stdout := stdout w1 @ summary\<rparr>"
    by (cases r) (simp_all add: run_def l0_def w0_def)
  from for_loop_Inr_counts[of s zs "py_range steps" l0 w0 l w1] fl r
  show ?thesis by (simp add: raw filtered w l0_def w0_def py_range_def)
qed

lemma run_no_steps:
  "steps \<le> 0 \<Longrightarrow>
   run s zs steps = (Inr ([], []), \<lparr>rng_pos = 0, stdout = banner s @ summary\<rparr>)"
  by (simp add: run_def py_range_nonpos)

text \<open>
  With the parameters of the constructor, the first step always ends in the
  \<open>TypeError\<close>. The first raw sample is the noise \<open>n\<close> alone, the first filtered state
  is the array holding \<open>0.15 n\<close>, and the coherence is the array holding
  \<open>1 - 0.85 |n| / (|n| + 1.5)\<close>, which is positive. So \<open>max(0, coherence)\<close> is that
  array, and formatting it with \<open>.4f\<close> raises.
\<close>

lemma first_coherence_pos:
  fixes n :: real
  shows "0 < 1 - \<bar>0 + (n - 0) * (1 - 0.85) - n\<bar> / (\<bar>n\<bar> + 1.5)"
proof -
  have e: "\<bar>0 + (n - 0) * (1 - 0.85) - n\<bar> = 0.85 * \<bar>n\<bar>"
    by (simp add: abs_if)
  have d: "0 < \<bar>n\<bar> + 1.5" by simp
  have lt: "0.85 * \<bar>n\<bar> < \<bar>n\<bar> + 1.5" by simp
  have "0.85 * \<bar>n\<bar> / (\<bar>n\<bar> + 1.5) < 1"
    using divide_less_eq_1_pos[OF d, of "0.85 * \<bar>n\<bar>"] lt by blast
  then show ?thesis unfolding e by linarith
qed

lemma loop_body_init_0:
  "loop_body init zs 0
     \<lparr>rtd_trajectory = [], raw_sensor_data = [], current_prediction = Array 0\<rparr> w
   = (Inl TypeError, w\<lparr>rng_pos := Suc (rng_pos w)\<rparr>)"
  using first_coherence_pos[of "noise_level init * zs (rng_pos w)"]
  by (simp add: loop_body_Array Let_def init_def)

lemma run_init_raises:
  "0 < steps \<Longrightarrow>
   run init zs steps = (Inl TypeError, \<lparr>rng_pos = 1, stdout = banner init\<rparr>)"
  by (simp add: run_def py_range_pos loop_body_init_0)

text \<open>
  The same holds for every decay of absolute value at most 1, whatever the time step and
  the noise level: the first coherence is \<open>1 - |d| |n| / (|n| + 1.5)\<close>, still positive.
  So no run of one or more steps with such a decay returns.
\<close>

lemma damped_first_coherence_pos:
  fixes n d :: real
  assumes "\<bar>d\<bar> \<le> 1"
  shows "0 < 1 - \<bar>0 + (n - 0) * (1 - d) - n\<bar> / (\<bar>n\<bar> + 1.5)"
proof -
  have "0 + (n - 0) * (1 - d) - n = - (d * n)" by (simp add: algebra_simps)
  then have e: "\<bar>0 + (n - 0) * (1 - d) - n\<bar> = \<bar>d\<bar> * \<bar>n\<bar>"
    by (simp add: abs_mult)
  have "\<bar>d\<bar> * \<bar>n\<bar> \<le> 1 * \<bar>n\<bar>"
    using assms by (intro mult_right_mono) simp_all
  then have lt: "\<bar>d\<bar> * \<bar>n\<bar> < \<bar>n\<bar> + 1.5" by simp
  have dpos: "0 < \<bar>n\<bar> + 1.5" by simp
  have "\<bar>d\<bar> * \<bar>n\<bar> / (\<bar>n\<bar> + 1.5) < 1"
    using divide_less_eq_1_pos[OF dpos, of "\<bar>d\<bar> * \<bar>n\<bar>"] lt by blast
  then show ?thesis unfolding e by linarith
qed

lemma run_damped_raises:
  assumes "\<bar>eigen_decay s\<bar> \<le> 1" and "0 < steps"
  shows "run s zs steps = (Inl TypeError, \<lparr>rng_pos = 1, stdout = banner s\<rparr>)"
proof -
  have "loop_body s zs 0
          \<lparr>rtd_trajectory = [], raw_sensor_data = [], current_prediction = Array 0\<rparr>
          \<lparr>rng_pos = 0, stdout = banner s\<rparr>
        = (Inl TypeError, \<lparr>rng_pos = 1, stdout = banner s\<rparr>)"
    using damped_first_coherence_pos[OF assms(1), of "noise_level s * zs 0"]
    by (simp add: loop_body_Array Let_def)
  with assms(2) show ?thesis
    by (simp add: run_def py_range_pos)
qed

text \<open>
  The loop invariant, read off a run that returns: the trajectories have the same length,
  the first filtered state is the update of the first raw sample and the initial array,
  and every later filtered state is the update of the raw sample of its step and the
  filtered state of the step before. Only a decay of absolute value above 1 lets a run of
  one or more steps return.
\<close>

lemma returned_trajectories_threaded:
  "item (apply_rtd_filter s raw_signal predicted_state)
     = item predicted_state + (item raw_signal - item predicted_state) * (1 - eigen_decay s)
   \<and> (fst (run s zs steps) = Inr (raw, filtered) \<longrightarrow>
        length filtered = length raw
        \<and> (0 < length filtered \<longrightarrow> filtered ! 0 = apply_rtd_filter s (raw ! 0) (Array 0.0))
        \<and> (\<forall>i. 1 \<le> i \<and> i < length filtered \<longrightarrow>
              filtered ! i = apply_rtd_filter s (raw ! i) (filtered ! (i - 1))))"
proof (intro conjI impI)
  show "item (apply_rtd_filter s raw_signal predicted_state)
     = item predicted_state + (item raw_signal - item predicted_state) * (1 - eigen_decay s)"
    by (rule item_apply_rtd_filter)
next
  assume a: "fst (run s zs steps) = Inr (raw, filtered)"
  define l0 where "l0 = \<lparr> rtd_trajectory = [], raw_sensor_data = [],
                 current_prediction = Array 0.0 \<rparr>"
  define w0 where "w0 = \<lparr> rng_pos = 0, stdout = banner s \<rparr>"
  obtain r w1 where fl: "for_loop s zs (py_range steps) l0 w0 = (r, w1)"
    by (cases "for_loop s zs (py_range steps) l0 w0")
  with a obtain l where r: "r = Inr l" and raw: "raw = raw_sensor_data l"
    and filtered: "filtered = rtd_trajectory l"
    by (cases r) (simp_all add: run_def l0_def w0_def)
  have "threaded s l0" by (simp add: threaded_def l0_def)
  with fl r have t: "threaded s l" using threaded_for_loop by blast
  then show "length filtered = length raw"
    by (simp add: threaded_def raw filtered)
  show "filtered ! 0 = apply_rtd_filter s (raw ! 0) (Array 0.0)" if "0 < length filtered"
    using t that by (simp add: threaded_def raw filtered)
  show "\<forall>i. 1 \<le> i \<and> i < length filtered \<longrightarrow>
              filtered ! i = apply_rtd_filter s (raw ! i) (filtered ! (i - 1))"
  proof (intro allI impI)
    fix i assume i: "1 \<le> i \<and> i < length filtered"
    then obtain j where j: "i = Suc j" by (cases i) simp_all
    from t i have "filtered ! i = apply_rtd_filter s (raw ! i) ((Array 0 # filtered) ! i)"
      by (simp add: threaded_def raw filtered)
    then show "filtered ! i = apply_rtd_filter s (raw ! i) (filtered ! (i - 1))"
      by (simp add: j)
  qed
qed

text \<open>
  A run of two steps that returns. With \<open>eigen_decay = 3\<close> and every variate 10, the
  first raw sample is 4, the first filtered state is -8 and the first coherence is
  negative, so the line of step 0 prints the integer 0 and the loop goes on.
\<close>

lemma returned_trajectories_threaded_example:
  "\<exists>raw filtered.
     fst (run (init\<lparr>eigen_decay := 3\<rparr>) (\<lambda>k. 10) 2) = Inr (raw, filtered)
     \<and> length filtered = 2 \<and> length raw = 2
     \<and> raw ! 0 = Scalar 4
     \<and> filtered ! 0 = Array (- 8)
     \<and> filtered ! 0 = apply_rtd_filter (init\<lparr>eigen_decay := 3\<rparr>) (raw ! 0) (Array 0.0)
     \<and> filtered ! 1 = apply_rtd_filter (init\<lparr>eigen_decay := 3\<rparr>) (raw ! 1) (filtered ! 0)"
proof -
  obtain raw filtered where
    r: "fst (run (init\<lparr>eigen_decay := 3\<rparr>) (\<lambda>k. 10) 2) = Inr (raw, filtered)"
    and n: "length filtered = 2" and r0: "raw ! 0 = Scalar 4" and f0: "filtered ! 0 = Array (- 8)"
    by (simp add: run_def py_range_def init_def upt_rec loop_body_Array Let_def)
  from returned_trajectories_threaded[of "init\<lparr>eigen_decay := 3\<rparr>" "Scalar 0" "Scalar 0" "\<lambda>k. 10" 2 raw filtered] r n
  have "length raw = 2"
    and "filtered ! 0 = apply_rtd_filter (init\<lparr>eigen_decay := 3\<rparr>) (raw ! 0) (Array 0.0)"
    and "filtered ! 1 = apply_rtd_filter (init\<lparr>eigen_decay := 3\<rparr>) (raw ! 1) (filtered ! 0)"
    by simp_all
  with r n r0 f0 show ?thesis by blast
qed

text \<open>
  C1, evaluated on the simulation as constructed. The filter update is
  \<open>predicted + (raw - predicted) * (1 - eigen_decay)\<close>: from the state 0.0 and the raw
  sample 0.4 it gives \<open>0.0 + (0.4 - 0.0) * (1 - 0.85)\<close>. The driver does not thread it
  over the steps: a run of two steps, every noise variate 1, raises the \<open>TypeError\<close> of
  the log line of step 0 after one draw, so there is no step 1, and no filtered
  trajectory is returned.
\<close>

theorem two_steps_no_trajectory:
  "item (apply_rtd_filter init (Scalar 0.4) (Array 0.0)) = 0.0 + (0.4 - 0.0) * (1 - 0.85)
   \<and> run init (\<lambda>k. 1) 2 = (Inl TypeError, \<lparr>rng_pos = 1, stdout = banner init\<rparr>)"
  using run_init_raises[of 2 "\<lambda>k. 1"]
  by (simp add: item_apply_rtd_filter init_def)

text \<open>
  C2, evaluated on the simulation as constructed. A run of no steps returns two empty
  sequences and prints only the banner and the summary. A run of one step, with the noise
  variate 0, does not return: it raises the \<open>TypeError\<close> of the first log line.
\<close>

theorem run_one_step_raises:
  "run init (\<lambda>k. 0) 0 = (Inr ([], []), \<lparr>rng_pos = 0, stdout = banner init @ summary\<rparr>)
   \<and> fst (run init (\<lambda>k. 0) 1) = Inl TypeError"
  using run_init_raises[of 1 "\<lambda>k. 0"] run_no_steps[of 0 init "\<lambda>k. 0"] by simp

text \<open>
  C3, as the code has it. For every negative \<open>steps\<close> the run raises no error: the range
  is empty, so the loop body never executes, no variate is drawn and no step line is
  printed, and the run returns two empty sequences after the banner and the summary.
\<close>

theorem negative_steps_return_empty:
  "steps < 0 \<Longrightarrow>
   run s zs steps = (Inr ([], []), \<lparr>rng_pos = 0, stdout = banner s @ summary\<rparr>)"
  by (simp add: run_no_steps)

theorem negative_steps_return_empty_witness:
  "(- 3 :: int) < 0
   \<and> run init (\<lambda>k. 1) (- 3) = (Inr ([], []), \<lparr>rng_pos = 0, stdout = banner init @ summary\<rparr>)"
  using negative_steps_return_empty[of "- 3" init "\<lambda>k. 1"] by simp

text \<open>
  C3, as stated, fails: \<open>run(-1)\<close> returns two empty sequences instead of an error.
\<close>

theorem negative_steps_no_error: "fst (run init (\<lambda>k. 0) (- 1)) = Inr ([], [])"
  by (simp add: run_def py_range_def)

text \<open>
  C5, evaluated at step 0 of the simulation as constructed, with the noise variate 0. The
  coherence of the first step is the one-element array holding 1; \<open>max(0, coherence)\<close> is
  that array, which the format specification \<open>.4f\<close> rejects; so the run prints the
  banner and no step line.
\<close>

theorem first_sample_not_logged:
  "coherence_metric (apply_rtd_filter init (Scalar 0) (Array 0)) (Scalar 0) = Inr (Array 1)
   \<and> format_4f (py_max0 (Array 1)) = Inl TypeError
   \<and> stdout (snd (run init (\<lambda>k. 0) 1)) = banner init"
  using run_init_raises[of 1 "\<lambda>k. 0"]
  by (simp add: apply_rtd_filter_Array coherence_metric_Array py_max0_def)

text \<open>
  C7. Two runs of the same simulation with the same \<open>steps\<close> whose random streams agree
  on the first \<open>steps\<close> variates have the same outcome in every respect: the same raw and
  filtered trajectories (or the same error), the same console output, coherence values
  included, and the same position of the generator. Nothing but the variates drawn
  distinguishes two runs.
\<close>

theorem same_stream_same_run:
  "(\<forall>k. k < nat steps \<longrightarrow> zs k = zs' k) \<Longrightarrow> run s zs steps = run s zs' steps"
proof -
  assume a: "\<forall>k. k < nat steps \<longrightarrow> zs k = zs' k"
  have "for_loop s zs (py_range steps) l \<lparr>rng_pos = 0, stdout = banner s\<rparr>
        = for_loop s zs' (py_range steps) l \<lparr>rng_pos = 0, stdout = banner s\<rparr>" for l
    using a by (intro for_loop_cong) (simp add: py_range_def)
  then show ?thesis by (simp add: run_def)
qed

text \<open>
  Two streams that agree on the first two variates and differ after them, in a run of two
  steps that returns and logs the coherence of step 0.
\<close>

theorem same_stream_same_run_witness:
  "run (init\<lparr>eigen_decay := 3\<rparr>) (\<lambda>k. if k < 2 then 10 else 0) 2
     = run (init\<lparr>eigen_decay := 3\<rparr>) (\<lambda>k. 10) 2
   \<and> (\<exists>raw filtered. fst (run (init\<lparr>eigen_decay := 3\<rparr>) (\<lambda>k. 10) 2) = Inr (raw, filtered))
   \<and> stdout (snd (run (init\<lparr>eigen_decay := 3\<rparr>) (\<lambda>k. 10) 2))
       = banner (init\<lparr>eigen_decay := 3\<rparr>) @ [StepLine 0 0] @ summary"
proof -
  have "run (init\<lparr>eigen_decay := 3\<rparr>) (\<lambda>k. if k < 2 then 10 else 0) 2
     = run (init\<lparr>eigen_decay := 3\<rparr>) (\<lambda>k. 10) 2"
    using same_stream_same_run[of 2 "\<lambda>k. if k < 2 then 10 else 0" "\<lambda>k. 10"
        "init\<lparr>eigen_decay := 3\<rparr>"]
    by simp
  moreover have "\<exists>raw filtered.
      fst (run (init\<lparr>eigen_decay := 3\<rparr>) (\<lambda>k. 10) 2) = Inr (raw, filtered)"
    by (simp add: run_def py_range_def init_def upt_rec loop_body_Array Let_def)
  moreover have "stdout (snd (run (init\<lparr>eigen_decay := 3\<rparr>) (\<lambda>k. 10) 2))
       = banner (init\<lparr>eigen_decay := 3\<rparr>) @ [StepLine 0 0] @ summary"
    by (simp add: run_def py_range_def init_def upt_rec loop_body_Array Let_def print_def)
  ultimately show ?thesis by blast
qed

text \<open>
  C10, evaluated on the simulation as constructed. A run of two steps draws one variate,
  not two: the first step raises after its draw, and the second step is never made.
\<close>

theorem two_steps_one_draw:
  "rng_pos (snd (run init (\<lambda>k. 0) 2)) = 1"
  using run_init_raises[of 2 "\<lambda>k. 0"] by simp

end
